theory Spec2Isabelle
  imports Main
begin

section \<open>Python values\<close>

text \<open>
  A Python \<open>str\<close> is the list of its code points; \<open>str\<close> turns a literal of this
  theory into one. The values that flow through the views are \<open>None\<close>, integers, text,
  and the text that \<open>bcrypt.hashpw(password, salt).decode()\<close> returns: \<open>PyHash salt key\<close>
  stands for the hash text bcrypt computes under \<open>salt\<close> from the key bytes \<open>key\<close>. bcrypt
  is an external package; its digest is taken as ideal: two hash texts are equal only if
  salt and key are, and a \<open>PyStr\<close> is text that bcrypt did not produce. The bytes of a
  value are the UTF-8 bytes of a text, or the (60) bytes of a hash text.
\<close>

definition str :: "string \<Rightarrow> nat list" where
  "str s = map of_char s"

datatype pybytes = Bytes "nat list" | HashBytes string pybytes

datatype pyval = PyNone | PyInt int | PyStr "nat list" | PyHash string pybytes

datatype pyerror = AttributeError | TypeError | ValueError | UnicodeEncodeError

text \<open>Truth value testing, as \<open>if value:\<close> and \<open>not value\<close> do it.\<close>

fun truthy :: "pyval \<Rightarrow> bool" where
  "truthy PyNone = False"
| "truthy (PyInt n) = (n \<noteq> 0)"
| "truthy (PyStr s) = (s \<noteq> [])"
| "truthy (PyHash salt key) = True"

text \<open>
  \<open>value.encode()\<close>: a method of \<open>str\<close> only, to UTF-8; a lone surrogate (U+D800 to
  U+DFFF), which a JSON body can carry, cannot be encoded.
\<close>

definition surrogate :: "nat \<Rightarrow> bool" where
  "surrogate c = (55296 \<le> c \<and> c \<le> 57343)"

definition utf8_char :: "nat \<Rightarrow> nat list" where
  "utf8_char c =
     (if c < 128 then [c]
      else if c < 2048 then [192 + c div 64, 128 + c mod 64]
      else if c < 65536 then [224 + c div 4096, 128 + c div 64 mod 64, 128 + c mod 64]
      else [240 + c div 262144, 128 + c div 4096 mod 64, 128 + c div 64 mod 64,
            128 + c mod 64])"

definition utf8 :: "nat list \<Rightarrow> nat list" where
  "utf8 s = concat (map utf8_char s)"

fun encode :: "pyval \<Rightarrow> pyerror + pybytes" where
  "encode PyNone = Inl AttributeError"
| "encode (PyInt n) = Inl AttributeError"
| "encode (PyStr s) = (if list_ex surrogate s then Inl UnicodeEncodeError else Inr (Bytes (utf8 s)))"
| "encode (PyHash salt key) = Inr (HashBytes salt key)"

text \<open>\<open>len(value)\<close> counts code points; a bcrypt hash text has 60 characters.\<close>

fun py_len :: "pyval \<Rightarrow> pyerror + nat" where
  "py_len PyNone = Inl TypeError"
| "py_len (PyInt n) = Inl TypeError"
| "py_len (PyStr s) = Inr (length s)"
| "py_len (PyHash salt key) = Inr 60"

subsection \<open>The bcrypt package\<close>

text \<open>
  The version of bcrypt is not fixed by the sources, and versions differ in two points,
  which are the parameters of the model: the passwords a version refuses with
  \<open>ValueError\<close> (version 5.0 refuses a password of more than 72 bytes, earlier versions
  cut it at 72 bytes), and the stored texts in front of which it can read a salt.
  Only the first 72 bytes of a password enter the hash. A hash text is 60 bytes, which
  no version refuses.
\<close>

record bcrypt =
  refuses :: "nat list \<Rightarrow> bool"
  reads_salt :: "nat list \<Rightarrow> bool"

fun refused :: "bcrypt \<Rightarrow> pybytes \<Rightarrow> bool" where
  "refused B (Bytes b) = refuses B b"
| "refused B (HashBytes salt key) = False"

fun key72 :: "pybytes \<Rightarrow> pybytes" where
  "key72 (Bytes b) = Bytes (take 72 b)"
| "key72 (HashBytes salt key) = HashBytes salt key"

text \<open>\<open>bcrypt.hashpw(password, salt).decode()\<close>, for a salt that \<open>bcrypt.gensalt()\<close> drew.\<close>

definition hashpw :: "bcrypt \<Rightarrow> pybytes \<Rightarrow> string \<Rightarrow> pyerror + pyval" where
  "hashpw B password salt =
     (if refused B password then Inl ValueError else Inr (PyHash salt (key72 password)))"

text \<open>
  \<open>bcrypt.checkpw(password, hashed_password)\<close> hashes the password with the salt it reads
  in front of the stored text and compares the result with the stored text. It raises
  \<open>ValueError\<close> ("Invalid salt") when it can read no salt, which is so at least for
  every text without the separator \<open>$\<close> (code 36). For a stored text with a salt that is
  not a hash text the comparison fails.
\<close>

fun checkpw :: "bcrypt \<Rightarrow> pybytes \<Rightarrow> pybytes \<Rightarrow> pyerror + bool" where
  "checkpw B password (HashBytes salt key) =
     (if refused B password then Inl ValueError else Inr (key = key72 password))"
| "checkpw B password (Bytes x) =
     (if refused B password then Inl ValueError
      else if 36 \<in> set x \<and> reads_salt B x then Inr False
      else Inl ValueError)"

section \<open>models/user.py: the User class\<close>

text \<open>
  An instance is its attribute dictionary. Reading a mapped column that was never
  assigned gives \<open>None\<close>.
\<close>

type_synonym pyobj = "string \<Rightarrow> pyval option"

definition getattr :: "pyobj \<Rightarrow> string \<Rightarrow> pyval" where
  "getattr self name = (case self name of None \<Rightarrow> PyNone | Some v \<Rightarrow> v)"

text \<open>\<open>super().__setattr__(name, value)\<close>\<close>

definition object_setattr :: "pyobj \<Rightarrow> string \<Rightarrow> pyval \<Rightarrow> pyobj" where
  "object_setattr self name v = self(name \<mapsto> v)"

text \<open>
  \<open>User.__setattr__\<close>. The salt is the one \<open>bcrypt.gensalt()\<close> draws when it is
  called. The assignment \<open>self.password_hash = ...\<close> inside the method enters the
  method again with the name \<open>password_hash\<close>, which takes the \<open>else\<close> branch.
\<close>

definition User_setattr ::
  "bcrypt \<Rightarrow> string \<Rightarrow> pyobj \<Rightarrow> string \<Rightarrow> pyval \<Rightarrow> pyerror + pyobj" where
  "User_setattr B salt self name v =
     (if name = ''password'' then
        (if truthy v then
           (case encode v of
              Inl e \<Rightarrow> Inl e
            | Inr b \<Rightarrow>
                (case hashpw B b salt of
                   Inl e \<Rightarrow> Inl e
                 | Inr h \<Rightarrow> Inr (object_setattr self ''password_hash'' h)))
         else Inr self)
      else Inr (object_setattr self name v))"

text \<open>\<open>User.verify_password\<close>: both arguments are encoded, left to right, then compared.\<close>

definition verify_password :: "bcrypt \<Rightarrow> pyobj \<Rightarrow> pyval \<Rightarrow> pyerror + bool" where
  "verify_password B self password =
     (case encode password of
        Inl e \<Rightarrow> Inl e
      | Inr p \<Rightarrow>
          (case encode (getattr self ''password_hash'') of
             Inl e \<Rightarrow> Inl e
           | Inr h \<Rightarrow> checkpw B p h))"

section \<open>models/engine/db.py: the storage\<close>

text \<open>
  The table of users is the list of its rows, in the order a query returns them.
  \<open>filter_by\<close> is \<open>query(cls).filter_by(column=v).first()\<close>, with exact comparison of
  the column. A row object that a view changed and committed (\<open>storage.save()\<close>) is
  written back in its place; \<open>storage.delete\<close> removes the row of the object.
\<close>

definition filter_by :: "pyobj list \<Rightarrow> string \<Rightarrow> pyval \<Rightarrow> pyobj option" where
  "filter_by rows column v = find (\<lambda>u. getattr u column = v) rows"

definition storage_get :: "pyobj list \<Rightarrow> pyval \<Rightarrow> pyobj option" where
  "storage_get rows ident =
     (if ident = PyNone then None else find (\<lambda>u. getattr u ''id'' = ident) rows)"

fun update_first :: "('a \<Rightarrow> bool) \<Rightarrow> 'a \<Rightarrow> 'a list \<Rightarrow> 'a list" where
  "update_first P y [] = []"
| "update_first P y (x # xs) = (if P x then y # xs else x # update_first P y xs)"

fun delete_first :: "('a \<Rightarrow> bool) \<Rightarrow> 'a list \<Rightarrow> 'a list" where
  "delete_first P [] = []"
| "delete_first P (x # xs) = (if P x then xs else x # delete_first P xs)"

section \<open>The Redis database of revoked tokens\<close>

text \<open>
  A key holds a value and the instant (in seconds) at which it expires. \<open>SET key value
  EX seconds\<close> stores the key; \<open>GET\<close> answers \<open>None\<close> for a key that is absent or expired.
\<close>

type_synonym redis = "string \<Rightarrow> (string \<times> nat) option"

definition redis_get :: "redis \<Rightarrow> nat \<Rightarrow> string \<Rightarrow> string option" where
  "redis_get db now k =
     (case db k of
        None \<Rightarrow> None
      | Some (v, expires) \<Rightarrow> if now < expires then Some v else None)"

definition redis_set :: "redis \<Rightarrow> nat \<Rightarrow> string \<Rightarrow> string \<Rightarrow> nat \<Rightarrow> redis" where
  "redis_set db now k v ex = db(k \<mapsto> (v, now + ex))"

text \<open>\<open>TTL key\<close>: the seconds a key still has to live.\<close>

definition redis_ttl :: "redis \<Rightarrow> nat \<Rightarrow> string \<Rightarrow> nat option" where
  "redis_ttl db now k =
     (case db k of
        None \<Rightarrow> None
      | Some (v, expires) \<Rightarrow> if now < expires then Some (expires - now) else None)"

section \<open>The state of the application\<close>

text \<open>
  The two stores, and the writes the application has made to them, oldest first: a
  \<open>SET\<close> of a key with its value and time to live, the deletion of the row with an id,
  a commit.
\<close>

datatype effect = RedisSet string string nat | DbDelete pyval | DbCommit

record state =
  users :: "pyobj list"
  blocklist :: redis
  writes :: "effect list"

text \<open>\<open>storage.delete(obj)\<close> for the row with the id, and \<open>storage.save()\<close>.\<close>

definition storage_delete :: "state \<Rightarrow> pyval \<Rightarrow> state" where
  "storage_delete st ident =
     st\<lparr>users := delete_first (\<lambda>u. getattr u ''id'' = ident) (users st),
        writes := writes st @ [DbDelete ident]\<rparr>"

definition storage_save :: "state \<Rightarrow> state" where
  "storage_save st = st\<lparr>writes := writes st @ [DbCommit]\<rparr>"

section \<open>Session tokens\<close>

text \<open>
  A token is its claims and the key its signature was computed with; the claim \<open>type\<close>
  is the field \<open>token_type\<close>.
\<close>

record jwt =
  user_id :: pyval
  jti :: string
  token_type :: string
  fresh :: bool
  iat :: nat
  exp :: nat
  signed_with :: string

text \<open>api/v1/app.py: \<open>timedelta(hours=1)\<close> and \<open>timedelta(days=30)\<close> in seconds.\<close>

definition JWT_ACCESS_TOKEN_EXPIRES :: nat where
  "JWT_ACCESS_TOKEN_EXPIRES = 3600"

definition JWT_REFRESH_TOKEN_EXPIRES :: nat where
  "JWT_REFRESH_TOKEN_EXPIRES = 2592000"

text \<open>
  Modelled from the spec: \<open>create_access_token\<close> and \<open>create_refresh_token\<close> belong to the
  token package the views import, which is not among the sources. Section 4.2:
  \<open>issueAccess\<close> sets the type \<open>access\<close>, \<open>issuedAt = now\<close>, \<open>expiresAt = now + 1h\<close>, fresh as
  given and a fresh token id; \<open>issueRefresh\<close> sets the type \<open>refresh\<close>, \<open>fresh = false\<close>
  always and \<open>expiresAt = now + 30d\<close>; both sign with the configured secret. The token id
  is the uuid the issuer draws, an argument here.
\<close>

definition create_access_token :: "string \<Rightarrow> nat \<Rightarrow> string \<Rightarrow> pyval \<Rightarrow> bool \<Rightarrow> jwt" where
  "create_access_token secret now uuid identity fr =
     \<lparr>user_id = identity, jti = uuid, token_type = ''access'', fresh = fr,
      iat = now, exp = now + JWT_ACCESS_TOKEN_EXPIRES, signed_with = secret\<rparr>"

definition create_refresh_token :: "string \<Rightarrow> nat \<Rightarrow> string \<Rightarrow> pyval \<Rightarrow> jwt" where
  "create_refresh_token secret now uuid identity =
     \<lparr>user_id = identity, jti = uuid, token_type = ''refresh'', fresh = False,
      iat = now, exp = now + JWT_REFRESH_TOKEN_EXPIRES, signed_with = secret\<rparr>"

section \<open>api/v1/app.py\<close>

text \<open>\<open>check_if_token_revoked\<close>: the key is looked up, and any value counts.\<close>

definition check_if_token_revoked :: "state \<Rightarrow> nat \<Rightarrow> jwt \<Rightarrow> bool" where
  "check_if_token_revoked st now jwt_payload =
     (redis_get (blocklist st) now (jti jwt_payload) \<noteq> None)"

definition revoke_token :: "state \<Rightarrow> nat \<Rightarrow> string \<Rightarrow> string \<Rightarrow> state" where
  "revoke_token st now j ttype =
     (let ttl = (if ttype = ''refresh'' then JWT_REFRESH_TOKEN_EXPIRES
                 else JWT_ACCESS_TOKEN_EXPIRES)
      in st\<lparr>blocklist := redis_set (blocklist st) now j [] ttl,
            writes := writes st @ [RedisSet j [] ttl]\<rparr>)"

subsection \<open>Responses\<close>

datatype json = JStr string | JVal pyval | JTok jwt | JUrl string | JObj "(string \<times> json) list"

type_synonym response = "json \<times> nat"

definition error_response :: "string \<Rightarrow> nat \<Rightarrow> response" where
  "error_response msg status = (JObj [(''error'', JStr msg)], status)"

definition message_response :: "string \<Rightarrow> nat \<Rightarrow> response" where
  "message_response msg status = (JObj [(''message'', JStr msg)], status)"

datatype jwt_error =
  NoAuthorization | InvalidToken | ExpiredToken | FreshTokenRequired | RevokedToken

text \<open>
  The loaders of app.py answer a refused token. No loader is registered for a token
  that is not fresh; the package's own answer to it is status 401 with the message
  below.
\<close>

fun jwt_error_response :: "jwt_error \<Rightarrow> response" where
  "jwt_error_response RevokedToken = error_response ''Token has been revoked'' 401"
| "jwt_error_response ExpiredToken = error_response ''Token has expired'' 401"
| "jwt_error_response InvalidToken = error_response ''Invalid token'' 401"
| "jwt_error_response NoAuthorization = error_response ''Authorization token is required'' 401"
| "jwt_error_response FreshTokenRequired = (JObj [(''msg'', JStr ''Fresh token required'')], 401)"

text \<open>
  Modelled from the spec: the decorator \<open>jwt_required\<close> belongs to the token package,
  which is not among the sources. Section 4.3, in order, stopping at the first failure:
  the signature is checked against the configured secret; \<open>expiresAt > now\<close>; the type
  when a refresh token is required; the freshness when a fresh token is required
  (section 7 names this failure \<open>InsufficientFreshness\<close>, the package
  \<open>FreshTokenRequired\<close>); last the revocation store is asked, through
  \<open>check_if_token_revoked\<close>. A request without a token is refused first.
\<close>

definition jwt_required ::
  "string \<Rightarrow> state \<Rightarrow> nat \<Rightarrow> jwt option \<Rightarrow> bool \<Rightarrow> bool \<Rightarrow> jwt_error + jwt" where
  "jwt_required secret st now presented refresh need_fresh =
     (case presented of
        None \<Rightarrow> Inl NoAuthorization
      | Some t \<Rightarrow>
          if signed_with t \<noteq> secret then Inl InvalidToken
          else if \<not> now < exp t then Inl ExpiredToken
          else if refresh \<and> token_type t \<noteq> ''refresh'' then Inl InvalidToken
          else if need_fresh \<and> \<not> fresh t then Inl FreshTokenRequired
          else if check_if_token_revoked st now t then Inl RevokedToken
          else Inr t)"

section \<open>api/v1/views/users.py\<close>

text \<open>
  A request: whether its body is JSON, the fields of the body (\<open>data\<close>), and the token
  of its Authorization header.
\<close>

record request =
  is_json :: bool
  data :: "(string \<times> pyval) list"
  token :: "jwt option"

definition data_get :: "(string \<times> pyval) list \<Rightarrow> string \<Rightarrow> pyval" where
  "data_get d k = (case map_of d k of None \<Rightarrow> PyNone | Some v \<Rightarrow> v)"

definition no_data_response :: "request \<Rightarrow> response" where
  "no_data_response req =
     (if is_json req then error_response ''Invalid JSON data'' 400
      else error_response ''No form data provided'' 400)"

text \<open>
  \<open>login\<close>. The two uuids are the token ids the issuer draws. An exception that leaves
  the view is the result \<open>Inl\<close>.
\<close>

definition login ::
  "bcrypt \<Rightarrow> string \<Rightarrow> state \<Rightarrow> nat \<Rightarrow> string \<Rightarrow> string \<Rightarrow> request
     \<Rightarrow> pyerror + response" where
  "login B secret st now uuid1 uuid2 req =
     (if data req = [] then Inr (no_data_response req)
      else
        let email = data_get (data req) ''email'';
            password = data_get (data req) ''password''
        in
          if \<not> truthy email \<or> \<not> truthy password then
            Inr (error_response ''Missing credentials'' 400)
          else
            (case filter_by (users st) ''email'' email of
               None \<Rightarrow> Inr (error_response ''Invalid email or password'' 401)
             | Some user \<Rightarrow>
                 (case verify_password B user password of
                    Inl e \<Rightarrow> Inl e
                  | Inr ok \<Rightarrow>
                      if \<not> ok then Inr (error_response ''Invalid email or password'' 401)
                      else
                        let access_token =
                              create_access_token secret now uuid1 (getattr user ''id'') True;
                            refresh_token =
                              create_refresh_token secret now uuid2 (getattr user ''id'')
                        in Inr (JObj [(''message'', JStr ''Login successful''),
                                      (''access_token'', JTok access_token),
                                      (''refresh_token'', JTok refresh_token),
                                      (''user'', JObj [(''id'', JVal (getattr user ''id'')),
                                                       (''username'', JVal (getattr user ''username'')),
                                                       (''email'', JVal (getattr user ''email''))])],
                                200))))"

definition refresh_token :: "string \<Rightarrow> state \<Rightarrow> nat \<Rightarrow> string \<Rightarrow> request \<Rightarrow> response" where
  "refresh_token secret st now uuid req =
     (case jwt_required secret st now (token req) True False of
        Inl e \<Rightarrow> jwt_error_response e
      | Inr t \<Rightarrow>
          (JObj [(''access_token'',
                  JTok (create_access_token secret now uuid (user_id t) False))], 200))"

definition logout :: "string \<Rightarrow> state \<Rightarrow> nat \<Rightarrow> request \<Rightarrow> response \<times> state" where
  "logout secret st now req =
     (case jwt_required secret st now (token req) False False of
        Inl e \<Rightarrow> (jwt_error_response e, st)
      | Inr t \<Rightarrow>
          (message_response ''Successfully logged out'' 200,
           revoke_token st now (jti t) (token_type t)))"

definition get_profile :: "string \<Rightarrow> state \<Rightarrow> nat \<Rightarrow> request \<Rightarrow> response" where
  "get_profile secret st now req =
     (case jwt_required secret st now (token req) False False of
        Inl e \<Rightarrow> jwt_error_response e
      | Inr t \<Rightarrow>
          (case storage_get (users st) (user_id t) of
             None \<Rightarrow> error_response ''User not found'' 404
           | Some user \<Rightarrow>
               (JObj [(''id'', JVal (getattr user ''id'')),
                      (''username'', JVal (getattr user ''username'')),
                      (''email'', JVal (getattr user ''email'')),
                      (''profile_picture_url'', JVal (getattr user ''profile_picture_url''))],
                200)))"

text \<open>
  \<open>change_password\<close>. \<open>data\<close> is what \<open>request.get_json()\<close> returns; the salt is the one
  the password assignment draws.
\<close>

definition change_password ::
  "bcrypt \<Rightarrow> string \<Rightarrow> state \<Rightarrow> nat \<Rightarrow> string \<Rightarrow> request
     \<Rightarrow> pyerror + response \<times> state" where
  "change_password B secret st now salt req =
     (case jwt_required secret st now (token req) False True of
        Inl e \<Rightarrow> Inr (jwt_error_response e, st)
      | Inr t \<Rightarrow>
          (case storage_get (users st) (user_id t) of
             None \<Rightarrow> Inr (error_response ''User not found'' 404, st)
           | Some user \<Rightarrow>
               if data req = [] then Inr (error_response ''Invalid JSON data'' 400, st)
               else
                 let current_password = data_get (data req) ''current_password'';
                     new_password = data_get (data req) ''new_password'';
                     confirm_password = data_get (data req) ''confirm_password''
                 in
                   if \<not> (truthy current_password \<and> truthy new_password
                         \<and> truthy confirm_password) then
                     Inr (error_response ''All password fields are required'' 400, st)
                   else
                     (case verify_password B user current_password of
                        Inl e \<Rightarrow> Inl e
                      | Inr ok \<Rightarrow>
                          if \<not> ok then
                            Inr (error_response ''Current password is incorrect'' 400, st)
                          else if new_password \<noteq> confirm_password then
                            Inr (error_response ''New passwords do not match'' 400, st)
                          else
                            (case py_len new_password of
                               Inl e \<Rightarrow> Inl e
                             | Inr n \<Rightarrow>
                                 if n < 6 then
                                   Inr (error_response
                                          ''Password must be at least 6 characters long'' 400, st)
                                 else
                                   (case User_setattr B salt user ''password'' new_password of
                                      Inl e \<Rightarrow> Inl e
                                    | Inr user' \<Rightarrow>
                                        Inr (message_response ''Password changed successfully'' 200,
                                             storage_save
                                               (st\<lparr>users :=
                                                    update_first
                                                      (\<lambda>u. getattr u ''id'' = user_id t)
                                                      user' (users st)\<rparr>)))))))"

text \<open>
  \<open>delete_user\<close>; \<open>uid\<close> is the id in the URL. The token is revoked, then the user
  record is deleted and the deletion committed.
\<close>

definition delete_user ::
  "string \<Rightarrow> state \<Rightarrow> nat \<Rightarrow> request \<Rightarrow> nat list \<Rightarrow> response \<times> state" where
  "delete_user secret st now req uid =
     (case jwt_required secret st now (token req) False True of
        Inl e \<Rightarrow> (jwt_error_response e, st)
      | Inr t \<Rightarrow>
          if user_id t \<noteq> PyStr uid then
            (error_response ''Unauthorized to delete this user'' 403, st)
          else
            (case storage_get (users st) (PyStr uid) of
               None \<Rightarrow> (error_response ''User not found'' 404, st)
             | Some user \<Rightarrow>
                 ((JObj [(''message'',
                          JVal (PyStr (str ''User '' @ uid @ str '' deleted successfully'')))],
                   200),
                  storage_save
                    (storage_delete (revoke_token st now (jti t) (token_type t))
                       (PyStr uid)))))"

text \<open>
  \<open>str(uuid.uuid4())\<close>: the 32 hexadecimal digits that are drawn, in five groups.
\<close>

definition uuid_str :: "string \<Rightarrow> string" where
  "uuid_str h =
     take 8 h @ ''-'' @ take 4 (drop 8 h) @ ''-'' @ take 4 (drop 12 h) @ ''-''
       @ take 4 (drop 16 h) @ ''-'' @ take 12 (drop 20 h)"



section \<open>Example data\<close>

text \<open>
  One registered user, with the password \<open>secret1\<close>, in an otherwise empty application;
  the tokens a login at instant 0 issues under the secret \<open>k\<close>; the access token a
  refresh at instant 50 issues.
\<close>

definition ex_user :: pyobj where
  "ex_user = [''id'' \<mapsto> PyStr (str ''u1''), ''username'' \<mapsto> PyStr (str ''faith''),
              ''email'' \<mapsto> PyStr (str ''a@x.com''),
              ''password_hash'' \<mapsto> PyHash ''salt0'' (Bytes (str ''secret1''))]"

definition ex_state :: state where
  "ex_state = \<lparr>users = [ex_user], blocklist = Map.empty, writes = []\<rparr>"

definition ex_login :: "pyval \<Rightarrow> pyval \<Rightarrow> request" where
  "ex_login email password =
     \<lparr>is_json = True, data = [(''email'', email), (''password'', password)], token = None\<rparr>"

definition ex_access :: jwt where
  "ex_access = create_access_token ''k'' 0 ''j1'' (PyStr (str ''u1'')) True"

definition ex_refresh :: jwt where
  "ex_refresh = create_refresh_token ''k'' 0 ''j2'' (PyStr (str ''u1''))"

definition ex_stale :: jwt where
  "ex_stale = create_access_token ''k'' 50 ''j3'' (PyStr (str ''u1'')) False"

definition ex_bearer :: "jwt \<Rightarrow> request" where
  "ex_bearer t = \<lparr>is_json = True, data = [], token = Some t\<rparr>"

text \<open>
  Two versions of bcrypt for the examples: one that refuses no password and one that
  refuses a password of more than 72 bytes. Both read a salt in front of a text that
  starts like a hash text.
\<close>

definition ex_reads_salt :: "nat list \<Rightarrow> bool" where
  "ex_reads_salt x = (take 4 x = str ''$2b$'' \<and> take 1 (drop 6 x) = str ''$'' \<and> 29 \<le> length x)"

definition ex_bcrypt_cut :: bcrypt where
  "ex_bcrypt_cut = \<lparr>refuses = (\<lambda>p. False), reads_salt = ex_reads_salt\<rparr>"


text \<open>The same user with a stored hash in which no salt can be read.\<close>

definition ex_bad_user :: pyobj where
  "ex_bad_user = ex_user(''password_hash'' \<mapsto> PyStr (str ''not-a-hash''))"

definition ex_bad_state :: state where
  "ex_bad_state = \<lparr>users = [ex_bad_user], blocklist = Map.empty, writes = []\<rparr>"

text \<open>The state after the access token was revoked at instant 100.\<close>

definition ex_revoked :: state where
  "ex_revoked = revoke_token ex_state 100 ''j1'' ''access''"

text \<open>An application without users.\<close>

definition ex_no_users :: state where
  "ex_no_users = \<lparr>users = [], blocklist = Map.empty, writes = []\<rparr>"

text \<open>
  A reset request for an email, the confirmation with a token and a new password, and
  what they leave of the example: the reset token that is drawn, the state that waits
  for the confirmation, the user after it and the state after it.
\<close>

definition ex_token :: string where
  "ex_token = uuid_str ''1b4e28ba2fa14d2a883f0016d3cca427''"



definition ex_pending_user :: pyobj where
  "ex_pending_user = object_setattr ex_user ''reset_token'' (PyStr (str ex_token))"




text \<open>
  A second user, first in the table, who already holds the reset token that is drawn
  for the first one; the two users after the confirmation.
\<close>

definition ex_other :: pyobj where
  "ex_other = [''id'' \<mapsto> PyStr (str ''u2''), ''username'' \<mapsto> PyStr (str ''grace''),
               ''email'' \<mapsto> PyStr (str ''c@x.com''),
               ''password_hash'' \<mapsto> PyHash ''salt9'' (Bytes (str ''hunter22'')),
               ''reset_token'' \<mapsto> PyStr (str ex_token)]"







section \<open>Basic facts\<close>

subsection \<open>Literals\<close>

lemma str_eq [simp]: "str a = str b \<longleftrightarrow> a = b"
  unfolding str_def by (simp add: inj_map_eq_map inj_on_def)

lemma str_Nil [simp]: "str s = [] \<longleftrightarrow> s = []"
  by (simp add: str_def)

lemma length_str [simp]: "length (str s) = length s"
  by (simp add: str_def)

lemma take_str: "take n (str s) = str (take n s)"
  by (simp add: str_def take_map)

lemma of_char_bound: "of_char c < (256::nat)"
proof -
  have "(of_char c :: nat) mod 256 < 256"
    by (rule mod_less_divisor) simp
  then show ?thesis by (simp only: of_char_mod_256)
qed

lemma not_surrogate_str [simp]: "\<not> list_ex surrogate (str s)"
proof -
  have "\<not> surrogate (of_char c)" for c :: char
    using of_char_bound [of c] unfolding surrogate_def by linarith
  then show ?thesis by (simp add: str_def list_ex_iff)
qed

lemma utf8_str: "\<forall>c\<in>set s. of_char c < (128::nat) \<Longrightarrow> utf8 (str s) = str s"
  by (induction s) (simp_all add: utf8_def str_def utf8_char_def)

lemma of_char_dollar: "of_char c = (36::nat) \<longleftrightarrow> c = CHR ''$''"
proof
  assume "of_char c = (36::nat)"
  then have "of_char c = (of_char CHR ''$'' :: nat)" by simp
  then show "c = CHR ''$''" by (rule of_char_eqI)
next
  assume "c = CHR ''$''"
  then show "of_char c = (36::nat)" by simp
qed

lemma dollar_in_str: "(36::nat) \<in> set (str s) \<longleftrightarrow> CHR ''$'' \<in> set s"
  by (induction s) (auto simp: str_def of_char_dollar eq_commute [of 36])

lemma uuid_str_not_Nil [simp]: "uuid_str h \<noteq> []"
  by (simp add: uuid_str_def)

subsection \<open>Objects and requests\<close>

lemma getattr_ex_user [simp]:
  "getattr ex_user ''id'' = PyStr (str ''u1'')"
  "getattr ex_user ''email'' = PyStr (str ''a@x.com'')"
  "getattr ex_user ''username'' = PyStr (str ''faith'')"
  "getattr ex_user ''password_hash'' = PyHash ''salt0'' (Bytes (str ''secret1''))"
  "getattr ex_user ''reset_token'' = PyNone"
  by (simp_all add: getattr_def ex_user_def)

lemma getattr_ex_bad_user [simp]:
  "getattr ex_bad_user ''email'' = PyStr (str ''a@x.com'')"
  "getattr ex_bad_user ''password_hash'' = PyStr (str ''not-a-hash'')"
  by (simp_all add: getattr_def ex_bad_user_def ex_user_def)

lemma getattr_ex_other [simp]:
  "getattr ex_other ''id'' = PyStr (str ''u2'')"
  "getattr ex_other ''email'' = PyStr (str ''c@x.com'')"
  "getattr ex_other ''password_hash'' = PyHash ''salt9'' (Bytes (str ''hunter22''))"
  "getattr ex_other ''reset_token'' = PyStr (str ex_token)"
  by (simp_all add: getattr_def ex_other_def)

lemma getattr_object_setattr:
  "getattr (object_setattr self n v) m = (if m = n then v else getattr self m)"
  by (simp add: getattr_def object_setattr_def)

lemma truthy_data: "truthy (data_get d k) \<Longrightarrow> d \<noteq> []"
  by (auto simp: data_get_def)

text \<open>
  An assignment to any attribute but \<open>password\<close> is the plain assignment, which is how
  the views' assignments to \<open>reset_token\<close> are written above.
\<close>

lemma User_setattr_other:
  "name \<noteq> ''password'' \<Longrightarrow> User_setattr B salt self name v = Inr (object_setattr self name v)"
  by (simp add: User_setattr_def)

lemma jwt_error_status: "snd (jwt_error_response e) = 401"
  by (cases e) (simp_all add: error_response_def)

subsection \<open>The revocation store\<close>

lemma blocklist_revoke_token:
  "blocklist (revoke_token st now j ttype)
     = (blocklist st)(j \<mapsto> ([], now + (if ttype = ''refresh'' then JWT_REFRESH_TOKEN_EXPIRES
                                          else JWT_ACCESS_TOKEN_EXPIRES)))"
  by (simp add: revoke_token_def redis_set_def Let_def)

lemma users_revoke_token: "users (revoke_token st now j ttype) = users st"
  by (simp add: revoke_token_def Let_def)

lemma writes_revoke_token:
  "writes (revoke_token st now j ttype)
     = writes st @ [RedisSet j [] (if ttype = ''refresh'' then JWT_REFRESH_TOKEN_EXPIRES
                                   else JWT_ACCESS_TOKEN_EXPIRES)]"
  by (simp add: revoke_token_def Let_def)

lemma jwt_required_other_key:
  assumes "blocklist st' (jti q) = blocklist st (jti q)"
  shows "jwt_required secret st' now (Some q) rf nf = jwt_required secret st now (Some q) rf nf"
  using assms by (simp add: jwt_required_def check_if_token_revoked_def redis_get_def)

lemma check_after_revoke:
  "check_if_token_revoked (revoke_token st now (jti t) (token_type t)) now t"
  by (simp add: check_if_token_revoked_def redis_get_def blocklist_revoke_token
      JWT_ACCESS_TOKEN_EXPIRES_def JWT_REFRESH_TOKEN_EXPIRES_def)

subsection \<open>The first row that matches\<close>






lemma find_delete_first_distinct:
  "distinct (map f xs) \<Longrightarrow> find (\<lambda>u. f u = k) (delete_first (\<lambda>u. f u = k) xs) = None"
proof (induction xs)
  case Nil
  then show ?case by simp
next
  case (Cons x xs)
  show ?case
  proof (cases "f x = k")
    case True
    then have "k \<notin> f ` set xs" using Cons.prems by auto
    then have "find (\<lambda>u. f u = k) xs = None" by (auto simp: find_None_iff)
    with True show ?thesis by simp
  next
    case False
    then show ?thesis using Cons by simp
  qed
qed

lemma length_delete_first:
  "find P xs = Some x \<Longrightarrow> Suc (length (delete_first P xs)) = length xs"
  by (induction xs) (auto split: if_splits)

section \<open>Login\<close>

text \<open>
  Claim C2. For a registered user and the matching password (both non-empty, as
  registration requires, and with token ids that are not in the revocation store), login
  answers 200 with a token pair: the access token is fresh, the refresh token is not,
  and both verify at once, the access token on plain and on fresh-only endpoints, the
  refresh token on the refresh endpoint.
\<close>

theorem login_issues_fresh_pair:
  assumes "filter_by (users st) ''email'' (data_get (data req) ''email'') = Some user"
    and "verify_password B user (data_get (data req) ''password'') = Inr True"
    and "truthy (data_get (data req) ''email'')" "truthy (data_get (data req) ''password'')"
    and "redis_get (blocklist st) now uuid1 = None" "redis_get (blocklist st) now uuid2 = None"
    and "a = create_access_token secret now uuid1 (getattr user ''id'') True"
    and "r = create_refresh_token secret now uuid2 (getattr user ''id'')"
  shows "login B secret st now uuid1 uuid2 req
           = Inr (JObj [(''message'', JStr ''Login successful''),
                        (''access_token'', JTok a), (''refresh_token'', JTok r),
                        (''user'', JObj [(''id'', JVal (getattr user ''id'')),
                                         (''username'', JVal (getattr user ''username'')),
                                         (''email'', JVal (getattr user ''email''))])], 200)
         \<and> fresh a \<and> \<not> fresh r
         \<and> jwt_required secret st now (Some a) False False = Inr a
         \<and> jwt_required secret st now (Some a) False True = Inr a
         \<and> jwt_required secret st now (Some r) True False = Inr r"
proof -
  have l: "login B secret st now uuid1 uuid2 req
           = Inr (JObj [(''message'', JStr ''Login successful''),
                        (''access_token'', JTok a), (''refresh_token'', JTok r),
                        (''user'', JObj [(''id'', JVal (getattr user ''id'')),
                                         (''username'', JVal (getattr user ''username'')),
                                         (''email'', JVal (getattr user ''email''))])], 200)"
    using assms truthy_data[OF assms(3)] by (simp add: login_def Let_def)
  have a: "jwt_required secret st now (Some a) False nf = Inr a" for nf
    using assms(5,7)
    by (simp add: jwt_required_def create_access_token_def check_if_token_revoked_def
        JWT_ACCESS_TOKEN_EXPIRES_def)
  have r: "jwt_required secret st now (Some r) True False = Inr r"
    using assms(6,8)
    by (simp add: jwt_required_def create_refresh_token_def check_if_token_revoked_def
        JWT_REFRESH_TOKEN_EXPIRES_def)
  have f: "fresh a \<and> \<not> fresh r"
    using assms(7,8) by (simp add: create_access_token_def create_refresh_token_def)
  show ?thesis using l a r f by simp
qed

theorem login_issues_fresh_pair_witness:
  "filter_by (users ex_state) ''email'' (PyStr (str ''a@x.com'')) = Some ex_user
   \<and> verify_password ex_bcrypt_cut ex_user (PyStr (str ''secret1'')) = Inr True
   \<and> redis_get (blocklist ex_state) 0 ''j1'' = None
   \<and> redis_get (blocklist ex_state) 0 ''j2'' = None
   \<and> login ex_bcrypt_cut ''k'' ex_state 0 ''j1'' ''j2''
         (ex_login (PyStr (str ''a@x.com'')) (PyStr (str ''secret1'')))
       = Inr (JObj [(''message'', JStr ''Login successful''),
                    (''access_token'', JTok ex_access), (''refresh_token'', JTok ex_refresh),
                    (''user'', JObj [(''id'', JVal (PyStr (str ''u1''))),
                                     (''username'', JVal (PyStr (str ''faith''))),
                                     (''email'', JVal (PyStr (str ''a@x.com'')))])], 200)
   \<and> fresh ex_access \<and> \<not> fresh ex_refresh
   \<and> jwt_required ''k'' ex_state 0 (Some ex_access) False False = Inr ex_access
   \<and> jwt_required ''k'' ex_state 0 (Some ex_access) False True = Inr ex_access
   \<and> jwt_required ''k'' ex_state 0 (Some ex_refresh) True False = Inr ex_refresh"
  using login_issues_fresh_pair [of ex_state
      "ex_login (PyStr (str ''a@x.com'')) (PyStr (str ''secret1''))" ex_user ex_bcrypt_cut 0
      "''j1''" "''j2''" ex_access "''k''" ex_refresh]
  by (simp add: ex_state_def ex_login_def data_get_def filter_by_def verify_password_def
      redis_get_def ex_access_def ex_refresh_def utf8_str take_str ex_bcrypt_cut_def)




section \<open>Password verification against a stored hash that is not one\<close>

text \<open>
  Claim C7 as stated fails: with a stored text in which bcrypt reads no salt,
  \<open>verify_password\<close> does not return false, it raises \<open>ValueError\<close>; with no stored hash
  it raises \<open>AttributeError\<close>; and login lets the exception through.
\<close>

theorem verify_password_malformed_counterexample:
  "verify_password ex_bcrypt_cut ex_bad_user (PyStr (str ''secret1'')) = Inl ValueError
   \<and> verify_password ex_bcrypt_cut ex_bad_user (PyStr (str ''secret1'')) \<noteq> Inr False
   \<and> verify_password ex_bcrypt_cut Map.empty (PyStr (str ''secret1'')) = Inl AttributeError
   \<and> login ex_bcrypt_cut ''k'' ex_bad_state 0 ''j1'' ''j2''
         (ex_login (PyStr (str ''a@x.com'')) (PyStr (str ''secret1'')))
       = Inl ValueError"
proof -
  have v: "verify_password ex_bcrypt_cut ex_bad_user (PyStr (str ''secret1'')) = Inl ValueError"
    by (simp add: verify_password_def utf8_str dollar_in_str ex_bcrypt_cut_def)
  have a: "verify_password ex_bcrypt_cut Map.empty (PyStr (str ''secret1'')) = Inl AttributeError"
    by (simp add: verify_password_def utf8_str getattr_def)
  have l: "login ex_bcrypt_cut ''k'' ex_bad_state 0 ''j1'' ''j2''
             (ex_login (PyStr (str ''a@x.com'')) (PyStr (str ''secret1'')))
           = Inl ValueError"
    using v by (simp add: login_def ex_bad_state_def ex_login_def data_get_def filter_by_def)
  show ?thesis using v a l by simp
qed

text \<open>
  Claim C7, amended. For every plaintext input, verification against a stored hash
  that is not a bcrypt hash never returns true. For an input that is a text that can
  be encoded: against an absent stored hash it raises \<open>AttributeError\<close>; against a
  stored text it raises \<open>ValueError\<close> when bcrypt refuses the password or reads no
  salt in front of the text (as in a text without \<open>$\<close>), and returns false when it
  reads one (a cut or damaged hash). The exceptions are not caught: a login that
  reaches one ends with it and issues nothing.
\<close>

theorem verify_password_malformed:
  "((\<forall>salt key. getattr self ''password_hash'' \<noteq> PyHash salt key) \<longrightarrow>
      verify_password B self password \<noteq> Inr True)
   \<and> (encode password = Inr p \<and> getattr self ''password_hash'' = PyNone \<longrightarrow>
        verify_password B self password = Inl AttributeError)
   \<and> (encode password = Inr p \<and> getattr self ''password_hash'' = PyStr x
        \<and> \<not> list_ex surrogate x \<longrightarrow>
        verify_password B self password
          = (if refused B p then Inl ValueError
             else if 36 \<in> set (utf8 x) \<and> reads_salt B (utf8 x) then Inr False
             else Inl ValueError))
   \<and> (encode password = Inr p \<and> getattr self ''password_hash'' = PyStr x
        \<and> 36 \<notin> set (utf8 x) \<longrightarrow>
        (\<exists>e. verify_password B self password = Inl e))
   \<and> (truthy (data_get (data req) ''email'') \<and> truthy password
        \<and> data_get (data req) ''password'' = password
        \<and> filter_by (users st) ''email'' (data_get (data req) ''email'') = Some self
        \<and> verify_password B self password = Inl e
       \<longrightarrow> login B secret st now uuid1 uuid2 req = Inl e)"
proof -
  have 1: "(\<forall>salt key. getattr self ''password_hash'' \<noteq> PyHash salt key) \<longrightarrow>
              verify_password B self password \<noteq> Inr True"
    by (cases "getattr self ''password_hash''"; cases "encode password")
       (auto simp: verify_password_def)
  have 2: "encode password = Inr p \<and> getattr self ''password_hash'' = PyNone \<longrightarrow>
            verify_password B self password = Inl AttributeError"
    by (simp add: verify_password_def)
  have 3: "encode password = Inr p \<and> getattr self ''password_hash'' = PyStr x
        \<and> \<not> list_ex surrogate x \<longrightarrow>
        verify_password B self password
          = (if refused B p then Inl ValueError
             else if 36 \<in> set (utf8 x) \<and> reads_salt B (utf8 x) then Inr False
             else Inl ValueError)"
    by (simp add: verify_password_def)
  have 4: "encode password = Inr p \<and> getattr self ''password_hash'' = PyStr x
        \<and> 36 \<notin> set (utf8 x) \<longrightarrow>
        (\<exists>e. verify_password B self password = Inl e)"
    by (simp add: verify_password_def)
  have 5: "truthy (data_get (data req) ''email'') \<and> truthy password
              \<and> data_get (data req) ''password'' = password
              \<and> filter_by (users st) ''email'' (data_get (data req) ''email'') = Some self
              \<and> verify_password B self password = Inl e
             \<longrightarrow> login B secret st now uuid1 uuid2 req = Inl e"
    using truthy_data [of "data req" "''email''"] by (auto simp: login_def Let_def)
  show ?thesis using 1 2 3 4 5 by blast
qed

theorem verify_password_malformed_witness:
  "encode (PyStr (str ''secret1'')) = Inr (Bytes (str ''secret1''))
   \<and> getattr ex_bad_user ''password_hash'' = PyStr (str ''not-a-hash'')
   \<and> 36 \<notin> set (utf8 (str ''not-a-hash''))
   \<and> verify_password ex_bcrypt_cut ex_bad_user (PyStr (str ''secret1'')) = Inl ValueError
   \<and> verify_password ex_bcrypt_cut ex_bad_user (PyStr (str ''secret1'')) \<noteq> Inr True
   \<and> getattr Map.empty ''password_hash'' = PyNone
   \<and> verify_password ex_bcrypt_cut Map.empty (PyStr (str ''secret1'')) = Inl AttributeError
   \<and> filter_by (users ex_bad_state) ''email'' (PyStr (str ''a@x.com'')) = Some ex_bad_user
   \<and> login ex_bcrypt_cut ''k'' ex_bad_state 0 ''j1'' ''j2''
         (ex_login (PyStr (str ''a@x.com'')) (PyStr (str ''secret1'')))
       = Inl ValueError"
proof -
  have e: "encode (PyStr (str ''secret1'')) = Inr (Bytes (str ''secret1''))"
    by (simp add: utf8_str)
  have d: "36 \<notin> set (utf8 (str ''not-a-hash''))"
    by (simp add: utf8_str dollar_in_str)
  have n: "getattr Map.empty ''password_hash'' = PyNone"
    by (simp add: getattr_def)
  have f: "filter_by (users ex_bad_state) ''email'' (PyStr (str ''a@x.com'')) = Some ex_bad_user"
    by (simp add: filter_by_def ex_bad_state_def)
  note t = verify_password_malformed [where self = ex_bad_user and B = ex_bcrypt_cut
      and password = "PyStr (str ''secret1'')" and p = "Bytes (str ''secret1'')"
      and x = "str ''not-a-hash''" and st = ex_bad_state and secret = "''k''" and now = 0
      and ?uuid1.0 = "''j1''" and ?uuid2.0 = "''j2''" and e = ValueError
      and req = "ex_login (PyStr (str ''a@x.com'')) (PyStr (str ''secret1''))"]
  note t0 = verify_password_malformed [where self = Map.empty and B = ex_bcrypt_cut
      and password = "PyStr (str ''secret1'')" and p = "Bytes (str ''secret1'')"]
  have v: "verify_password ex_bcrypt_cut ex_bad_user (PyStr (str ''secret1'')) = Inl ValueError"
    using t e d by (simp add: ex_bcrypt_cut_def)
  have w: "verify_password ex_bcrypt_cut ex_bad_user (PyStr (str ''secret1'')) \<noteq> Inr True"
    using v by simp
  have a: "verify_password ex_bcrypt_cut Map.empty (PyStr (str ''secret1'')) = Inl AttributeError"
    using t0 e n by simp
  have l: "login ex_bcrypt_cut ''k'' ex_bad_state 0 ''j1'' ''j2''
             (ex_login (PyStr (str ''a@x.com'')) (PyStr (str ''secret1'')))
           = Inl ValueError"
    using t v f by (simp add: ex_login_def data_get_def)
  show ?thesis using e d v w n a f l by simp
qed

section \<open>Assigning the password attribute\<close>

text \<open>
  Claim C10. Assigning a falsy value to \<open>password\<close> changes nothing; no assignment
  through \<open>__setattr__\<close> ever creates an attribute \<open>password\<close>; an assignment to
  \<open>password\<close> that changes \<open>password_hash\<close> was a truthy one; and a truthy assignment
  that succeeds stores the hash of the value's bytes (of their first 72) under the
  drawn salt, and nothing else.
\<close>

theorem password_falsy_noop:
  "(\<not> truthy v \<longrightarrow> User_setattr B salt self ''password'' v = Inr self)
   \<and> (User_setattr B salt self name v = Inr self' \<and> self ''password'' = None
        \<longrightarrow> self' ''password'' = None)
   \<and> (User_setattr B salt self ''password'' v = Inr self'
        \<and> self' ''password_hash'' \<noteq> self ''password_hash'' \<longrightarrow> truthy v)
   \<and> (truthy v \<and> User_setattr B salt self ''password'' v = Inr self'
        \<longrightarrow> (\<exists>b. encode v = Inr b
                 \<and> self' = self(''password_hash'' \<mapsto> PyHash salt (key72 b))))"
  by (cases v)
     (auto simp: User_setattr_def object_setattr_def hashpw_def split: if_splits sum.splits)

theorem password_falsy_noop_witness:
  "\<not> truthy PyNone \<and> User_setattr ex_bcrypt_cut ''salt1'' ex_user ''password'' PyNone = Inr ex_user
   \<and> \<not> truthy (PyStr [])
   \<and> User_setattr ex_bcrypt_cut ''salt1'' ex_user ''password'' (PyStr []) = Inr ex_user
   \<and> truthy (PyStr (str ''secret2''))
   \<and> User_setattr ex_bcrypt_cut ''salt1'' ex_user ''password'' (PyStr (str ''secret2''))
       = Inr (ex_user(''password_hash'' \<mapsto> PyHash ''salt1'' (Bytes (str ''secret2''))))
   \<and> ex_user ''password'' = None
   \<and> (ex_user(''password_hash'' \<mapsto> PyHash ''salt1'' (Bytes (str ''secret2'')))) ''password''
       = None"
  using password_falsy_noop [of PyNone ex_bcrypt_cut "''salt1''" ex_user "''password''" ex_user]
    password_falsy_noop [of "PyStr []" ex_bcrypt_cut "''salt1''" ex_user "''password''" ex_user]
    password_falsy_noop [of "PyStr (str ''secret2'')" ex_bcrypt_cut "''salt1''" ex_user
      "''password''"
      "ex_user(''password_hash'' \<mapsto> PyHash ''salt1'' (Bytes (str ''secret2'')))"]
  by (simp add: User_setattr_def object_setattr_def hashpw_def ex_user_def utf8_str take_str
      ex_bcrypt_cut_def)

section \<open>Freshness\<close>

text \<open>
  Claim C3. The access token a refresh issues is not fresh. Presented to
  \<open>change_password\<close> or \<open>delete_user\<close>, in any state and at any time, it is refused with
  status 401 and nothing changes; while it is unexpired the refusal is the one for a
  token that is not fresh. The same token passes the plain check of an ordinary
  protected endpoint as long as it is unexpired and not revoked.
\<close>

theorem refreshed_token_needs_login:
  assumes "jwt_required secret st now (token req) True False = Inr r"
    and "a = create_access_token secret now uuid (user_id r) False"
    and "token req' = Some a"
  shows "refresh_token secret st now uuid req = (JObj [(''access_token'', JTok a)], 200)
         \<and> \<not> fresh a
         \<and> (now' < exp a \<longrightarrow>
              change_password B secret st' now' salt req'
                = Inr (jwt_error_response FreshTokenRequired, st')
              \<and> delete_user secret st' now' req' uid
                = (jwt_error_response FreshTokenRequired, st'))
         \<and> snd (jwt_error_response FreshTokenRequired) = 401
         \<and> (\<exists>e. change_password B secret st' now' salt req' = Inr (jwt_error_response e, st')
                \<and> delete_user secret st' now' req' uid = (jwt_error_response e, st')
                \<and> snd (jwt_error_response e) = 401)
         \<and> (now' < exp a \<and> \<not> check_if_token_revoked st' now' a \<longrightarrow>
              jwt_required secret st' now' (Some a) False False = Inr a)"
proof -
  have 1: "refresh_token secret st now uuid req = (JObj [(''access_token'', JTok a)], 200)"
    using assms(1,2) by (simp add: refresh_token_def)
  have 2: "\<not> fresh a" "signed_with a = secret"
    using assms(2) by (simp_all add: create_access_token_def)
  have 3: "jwt_required secret st' now' (Some a) False True
           = Inl (if now' < exp a then FreshTokenRequired else ExpiredToken)"
    using 2 by (simp add: jwt_required_def)
  have 4: "snd (jwt_error_response e) = 401" for e
    by (rule jwt_error_status)
  have 5: "change_password B secret st' now' salt req'
           = Inr (jwt_error_response (if now' < exp a then FreshTokenRequired else ExpiredToken), st')"
    using 3 assms(3) by (simp add: change_password_def)
  have 6: "delete_user secret st' now' req' uid
           = (jwt_error_response (if now' < exp a then FreshTokenRequired else ExpiredToken), st')"
    using 3 assms(3) by (simp add: delete_user_def)
  have 7: "now' < exp a \<and> \<not> check_if_token_revoked st' now' a \<longrightarrow>
              jwt_required secret st' now' (Some a) False False = Inr a"
    using 2 by (simp add: jwt_required_def)
  have 8: "\<exists>e. change_password B secret st' now' salt req' = Inr (jwt_error_response e, st')
                \<and> delete_user secret st' now' req' uid = (jwt_error_response e, st')
                \<and> snd (jwt_error_response e) = 401"
    using 4 5 6 by blast
  have 9: "now' < exp a \<longrightarrow>
              change_password B secret st' now' salt req'
                = Inr (jwt_error_response FreshTokenRequired, st')
              \<and> delete_user secret st' now' req' uid
                = (jwt_error_response FreshTokenRequired, st')"
    using 5 6 by simp
  show ?thesis using 1 2(1) 4 7 8 9 by blast
qed

theorem refreshed_token_needs_login_witness:
  "jwt_required ''k'' ex_state 50 (token (ex_bearer ex_refresh)) True False = Inr ex_refresh
   \<and> refresh_token ''k'' ex_state 50 ''j3'' (ex_bearer ex_refresh)
       = (JObj [(''access_token'', JTok ex_stale)], 200)
   \<and> \<not> fresh ex_stale
   \<and> (60::nat) < exp ex_stale
   \<and> change_password ex_bcrypt_cut ''k'' ex_state 60 ''salt1'' (ex_bearer ex_stale)
       = Inr ((JObj [(''msg'', JStr ''Fresh token required'')], 401), ex_state)
   \<and> delete_user ''k'' ex_state 60 (ex_bearer ex_stale) (str ''u1'')
       = ((JObj [(''msg'', JStr ''Fresh token required'')], 401), ex_state)
   \<and> \<not> check_if_token_revoked ex_state 60 ex_stale
   \<and> jwt_required ''k'' ex_state 60 (Some ex_stale) False False = Inr ex_stale"
proof -
  have h: "jwt_required ''k'' ex_state 50 (token (ex_bearer ex_refresh)) True False
           = Inr ex_refresh"
    by (simp add: jwt_required_def ex_bearer_def ex_refresh_def create_refresh_token_def
        check_if_token_revoked_def redis_get_def ex_state_def JWT_REFRESH_TOKEN_EXPIRES_def)
  have s: "ex_stale = create_access_token ''k'' 50 ''j3'' (user_id ex_refresh) False"
    by (simp add: ex_stale_def ex_refresh_def create_refresh_token_def)
  have t: "token (ex_bearer ex_stale) = Some ex_stale"
    by (simp add: ex_bearer_def)
  have e: "(60::nat) < exp ex_stale"
    by (simp add: ex_stale_def create_access_token_def JWT_ACCESS_TOKEN_EXPIRES_def)
  have n: "\<not> check_if_token_revoked ex_state 60 ex_stale"
    by (simp add: check_if_token_revoked_def redis_get_def ex_state_def)
  show ?thesis
    using refreshed_token_needs_login [OF h s t, where now' = 60 and st' = ex_state
        and salt = "''salt1''" and uid = "str ''u1''" and B = ex_bcrypt_cut]
      h e n
    by simp
qed

section \<open>Revocation\<close>

text \<open>
  Claim C1 as stated fails: the access token issued at instant 0 and revoked at instant
  100 has its entry in the store until instant 3700; presented at instant 3650 it is
  refused as expired, not as revoked, because the expiry is checked before the store is
  asked.
\<close>

theorem revoked_token_counterexample:
  "check_if_token_revoked ex_revoked 3650 ex_access
   \<and> jwt_required ''k'' ex_revoked 3650 (Some ex_access) False False = Inl ExpiredToken
   \<and> jwt_required ''k'' ex_revoked 3650 (Some ex_access) False False \<noteq> Inl RevokedToken"
  by (simp add: ex_revoked_def ex_access_def ex_state_def blocklist_revoke_token
      check_if_token_revoked_def redis_get_def jwt_required_def create_access_token_def
      JWT_ACCESS_TOKEN_EXPIRES_def)

text \<open>
  Claim C1, amended. Once a token's id was revoked, and as long as its entry in the
  store has not expired (whatever else happened to other keys since), the store lookup
  finds the key, whose value is the empty text, and no verification of that token
  succeeds; the refusal is the one for a revoked token, status 401, whenever the token
  passes the checks made before the store is asked: the signature, the expiry, and the
  type and freshness the endpoint requires.
\<close>

theorem revoked_token_refused:
  assumes "blocklist st' (jti t) = blocklist (revoke_token st now0 (jti t) (token_type t)) (jti t)"
    and "now1 < now0 + (if token_type t = ''refresh'' then JWT_REFRESH_TOKEN_EXPIRES
                        else JWT_ACCESS_TOKEN_EXPIRES)"
  shows "redis_get (blocklist st') now1 (jti t) = Some []
         \<and> check_if_token_revoked st' now1 t
         \<and> (\<forall>t'. jwt_required secret st' now1 (Some t) rf nf \<noteq> Inr t')
         \<and> (signed_with t = secret \<and> now1 < exp t \<and> (rf \<longrightarrow> token_type t = ''refresh'')
              \<and> (nf \<longrightarrow> fresh t)
            \<longrightarrow> jwt_required secret st' now1 (Some t) rf nf = Inl RevokedToken
                \<and> jwt_error_response RevokedToken = error_response ''Token has been revoked'' 401)"
proof -
  have g: "redis_get (blocklist st') now1 (jti t) = Some []"
    using assms by (simp add: blocklist_revoke_token redis_get_def)
  then have c: "check_if_token_revoked st' now1 t"
    by (simp add: check_if_token_revoked_def)
  have n: "jwt_required secret st' now1 (Some t) rf nf \<noteq> Inr t'" for t'
    using c by (simp add: jwt_required_def)
  have r: "signed_with t = secret \<and> now1 < exp t \<and> (rf \<longrightarrow> token_type t = ''refresh'')
              \<and> (nf \<longrightarrow> fresh t)
            \<longrightarrow> jwt_required secret st' now1 (Some t) rf nf = Inl RevokedToken"
    using c by (auto simp: jwt_required_def)
  show ?thesis using g c n r by simp
qed

theorem revoked_token_refused_witness:
  "blocklist ex_revoked (jti ex_access)
     = blocklist (revoke_token ex_state 100 (jti ex_access) (token_type ex_access)) (jti ex_access)
   \<and> (200::nat) < 100 + JWT_ACCESS_TOKEN_EXPIRES
   \<and> signed_with ex_access = ''k'' \<and> 200 < exp ex_access
   \<and> check_if_token_revoked ex_revoked 200 ex_access
   \<and> jwt_required ''k'' ex_revoked 200 (Some ex_access) False False = Inl RevokedToken
   \<and> jwt_required ''k'' ex_revoked 200 (Some ex_access) False True = Inl RevokedToken
   \<and> jwt_required ''k'' ex_state 200 (Some ex_access) False False = Inr ex_access"
proof -
  have a: "blocklist ex_revoked (jti ex_access)
     = blocklist (revoke_token ex_state 100 (jti ex_access) (token_type ex_access)) (jti ex_access)"
    by (simp add: ex_revoked_def ex_access_def create_access_token_def)
  have b: "200 < 100 + (if token_type ex_access = ''refresh'' then JWT_REFRESH_TOKEN_EXPIRES
                        else JWT_ACCESS_TOKEN_EXPIRES)"
    by (simp add: ex_access_def create_access_token_def JWT_ACCESS_TOKEN_EXPIRES_def)
  have c: "signed_with ex_access = ''k'' \<and> 200 < exp ex_access \<and> fresh ex_access"
    by (simp add: ex_access_def create_access_token_def JWT_ACCESS_TOKEN_EXPIRES_def)
  have d: "jwt_required ''k'' ex_state 200 (Some ex_access) False False = Inr ex_access"
    using c by (simp add: jwt_required_def check_if_token_revoked_def redis_get_def ex_state_def)
  show ?thesis
    using revoked_token_refused [OF a b, of "''k''" False False]
      revoked_token_refused [OF a b, of "''k''" False True] a c d
    by (simp add: JWT_ACCESS_TOKEN_EXPIRES_def)
qed

text \<open>
  Claim C4 as stated fails: the access token issued at instant 0 expires at 3600;
  logout at instant 100 stores its id for 3600 seconds, while 3500 remain.
\<close>

theorem revocation_ttl_counterexample:
  "logout ''k'' ex_state 100 (ex_bearer ex_access)
     = (message_response ''Successfully logged out'' 200, ex_revoked)
   \<and> redis_ttl (blocklist ex_revoked) 100 (jti ex_access) = Some 3600
   \<and> exp ex_access - 100 = 3500"
  by (simp add: logout_def jwt_required_def ex_bearer_def ex_access_def create_access_token_def
      check_if_token_revoked_def redis_get_def ex_state_def ex_revoked_def
      blocklist_revoke_token redis_ttl_def JWT_ACCESS_TOKEN_EXPIRES_def)

text \<open>
  Claim C4, amended. For every revocation the time to live of the entry is the nominal
  lifetime of the token's type, 2592000 seconds for the type \<open>refresh\<close> and 3600 seconds
  otherwise, whatever remains of the token's life; so it is for the entries logout and
  delete_user write. For a token the issuer made that is no less than what remains
  of its life.
\<close>

theorem revocation_ttl_nominal:
  "redis_ttl (blocklist (revoke_token st now j ttype)) now j
     = Some (if ttype = ''refresh'' then 2592000 else 3600)
   \<and> (jwt_required secret st now (token req) False False = Inr t
       \<longrightarrow> redis_ttl (blocklist (snd (logout secret st now req))) now (jti t)
             = Some (if token_type t = ''refresh'' then 2592000 else 3600))
   \<and> (jwt_required secret st now (token req) False True = Inr t \<and> user_id t = PyStr uid
        \<and> storage_get (users st) (PyStr uid) = Some user
       \<longrightarrow> redis_ttl (blocklist (snd (delete_user secret st now req uid))) now (jti t)
             = Some (if token_type t = ''refresh'' then 2592000 else 3600))
   \<and> (t = create_access_token secret issued uuid ident fr \<and> issued \<le> now
       \<longrightarrow> exp t - now \<le> 3600 \<and> token_type t \<noteq> ''refresh'')
   \<and> (t = create_refresh_token secret issued uuid ident \<and> issued \<le> now
       \<longrightarrow> exp t - now \<le> 2592000 \<and> token_type t = ''refresh'')"
  by (auto simp: blocklist_revoke_token redis_ttl_def logout_def delete_user_def
      storage_delete_def storage_save_def
      create_access_token_def create_refresh_token_def
      JWT_ACCESS_TOKEN_EXPIRES_def JWT_REFRESH_TOKEN_EXPIRES_def)

theorem revocation_ttl_nominal_witness:
  "redis_ttl (blocklist (revoke_token ex_state 100 ''j2'' ''refresh'')) 100 ''j2'' = Some 2592000
   \<and> jwt_required ''k'' ex_state 100 (token (ex_bearer ex_access)) False False = Inr ex_access
   \<and> redis_ttl (blocklist (snd (logout ''k'' ex_state 100 (ex_bearer ex_access)))) 100 ''j1''
       = Some 3600
   \<and> jwt_required ''k'' ex_state 100 (token (ex_bearer ex_access)) False True = Inr ex_access
   \<and> storage_get (users ex_state) (PyStr (str ''u1'')) = Some ex_user
   \<and> redis_ttl (blocklist (snd (delete_user ''k'' ex_state 100 (ex_bearer ex_access)
                                     (str ''u1''))))
         100 ''j1'' = Some 3600
   \<and> exp ex_access - 100 \<le> 3600
   \<and> exp ex_refresh - 100 \<le> 2592000"
proof -
  have h: "jwt_required ''k'' ex_state 100 (token (ex_bearer ex_access)) False nf = Inr ex_access"
    for nf
    by (simp add: jwt_required_def ex_bearer_def ex_access_def create_access_token_def
        check_if_token_revoked_def redis_get_def ex_state_def JWT_ACCESS_TOKEN_EXPIRES_def)
  have i: "user_id ex_access = PyStr (str ''u1'')" "jti ex_access = ''j1''"
    "token_type ex_access = ''access''"
    by (simp_all add: ex_access_def create_access_token_def)
  have g: "storage_get (users ex_state) (PyStr (str ''u1'')) = Some ex_user"
    by (simp add: storage_get_def ex_state_def)
  have a: "ex_access = create_access_token ''k'' 0 ''j1'' (PyStr (str ''u1'')) True"
    by (simp add: ex_access_def)
  have r: "ex_refresh = create_refresh_token ''k'' 0 ''j2'' (PyStr (str ''u1''))"
    by (simp add: ex_refresh_def)
  note t1 = revocation_ttl_nominal [where st = ex_state and now = 100 and j = "''j2''"
        and ttype = "''refresh''" and secret = "''k''" and req = "ex_bearer ex_access"
        and t = ex_access and uid = "str ''u1''" and user = ex_user and issued = 0
        and uuid = "''j1''" and ident = "PyStr (str ''u1'')" and fr = True]
  note t2 = revocation_ttl_nominal [where st = ex_state and now = 100 and j = "''j2''"
        and ttype = "''refresh''" and secret = "''k''" and req = "ex_bearer ex_access"
        and t = ex_refresh and uid = "str ''u1''" and user = ex_user and issued = 0
        and uuid = "''j2''" and ident = "PyStr (str ''u1'')" and fr = True]
  have 1: "redis_ttl (blocklist (revoke_token ex_state 100 ''j2'' ''refresh'')) 100 ''j2''
           = Some 2592000"
    using t1 by simp
  have 2: "redis_ttl (blocklist (snd (logout ''k'' ex_state 100 (ex_bearer ex_access)))) 100
             (jti ex_access) = Some 3600"
    using t1 h[of False] i(3) by simp
  have 3: "redis_ttl (blocklist (snd (delete_user ''k'' ex_state 100 (ex_bearer ex_access)
                                     (str ''u1''))))
             100 (jti ex_access) = Some 3600"
    using t1 h[of True] i(1,3) g by simp
  have 4: "exp ex_access - 100 \<le> 3600"
    using t1 a by simp
  have 5: "exp ex_refresh - 100 \<le> 2592000"
    using t2 r by simp
  show ?thesis using 1 2 3 4 5 h g i(2) by simp
qed

text \<open>
  Claim C9. A logout whose token is accepted answers 200 and revokes the id of that
  token: the users are unchanged, the store gains exactly that key, every other key is
  as before, and every token with another id is verified exactly as before, at any
  time and for any requirement.
\<close>

theorem logout_revokes_presented_only:
  assumes "jwt_required secret st now (token req) False False = Inr t"
  shows "logout secret st now req
           = (message_response ''Successfully logged out'' 200,
              revoke_token st now (jti t) (token_type t))
         \<and> users (snd (logout secret st now req)) = users st
         \<and> dom (blocklist (snd (logout secret st now req))) = insert (jti t) (dom (blocklist st))
         \<and> (k \<noteq> jti t \<longrightarrow> blocklist (snd (logout secret st now req)) k = blocklist st k)
         \<and> (jti q \<noteq> jti t \<longrightarrow>
              jwt_required secret (snd (logout secret st now req)) now' (Some q) rf nf
                = jwt_required secret st now' (Some q) rf nf)"
proof -
  have l: "logout secret st now req
           = (message_response ''Successfully logged out'' 200,
              revoke_token st now (jti t) (token_type t))"
    using assms by (simp add: logout_def)
  have o: "k \<noteq> jti t \<Longrightarrow> blocklist (revoke_token st now (jti t) (token_type t)) k = blocklist st k"
    for k by (simp add: blocklist_revoke_token)
  have q: "jti q \<noteq> jti t \<Longrightarrow>
      jwt_required secret (revoke_token st now (jti t) (token_type t)) now' (Some q) rf nf
        = jwt_required secret st now' (Some q) rf nf"
    by (rule jwt_required_other_key) (simp add: o)
  have d: "dom (blocklist (revoke_token st now (jti t) (token_type t)))
           = insert (jti t) (dom (blocklist st))"
    by (simp add: blocklist_revoke_token)
  show ?thesis using l o q d by (simp add: users_revoke_token)
qed

theorem logout_revokes_presented_only_witness:
  "jwt_required ''k'' ex_state 100 (token (ex_bearer ex_access)) False False = Inr ex_access
   \<and> logout ''k'' ex_state 100 (ex_bearer ex_access)
       = (message_response ''Successfully logged out'' 200, ex_revoked)
   \<and> users ex_revoked = users ex_state
   \<and> dom (blocklist ex_revoked) = {''j1''}
   \<and> jti ex_refresh \<noteq> jti ex_access
   \<and> jwt_required ''k'' ex_revoked 200 (Some ex_refresh) True False = Inr ex_refresh
   \<and> jwt_required ''k'' ex_revoked 200 (Some ex_access) False False = Inl RevokedToken"
proof -
  have h: "jwt_required ''k'' ex_state 100 (token (ex_bearer ex_access)) False False
           = Inr ex_access"
    by (simp add: jwt_required_def ex_bearer_def ex_access_def create_access_token_def
        check_if_token_revoked_def redis_get_def ex_state_def JWT_ACCESS_TOKEN_EXPIRES_def)
  have j: "jti ex_access = ''j1''" "token_type ex_access = ''access''" "jti ex_refresh = ''j2''"
    by (simp_all add: ex_access_def ex_refresh_def create_access_token_def
        create_refresh_token_def)
  have r: "jwt_required ''k'' ex_state 200 (Some ex_refresh) True False = Inr ex_refresh"
    by (simp add: jwt_required_def ex_refresh_def create_refresh_token_def
        check_if_token_revoked_def redis_get_def ex_state_def JWT_REFRESH_TOKEN_EXPIRES_def)
  have a: "jwt_required ''k'' ex_revoked 200 (Some ex_access) False False = Inl RevokedToken"
    by (simp add: jwt_required_def ex_access_def create_access_token_def ex_revoked_def
        check_if_token_revoked_def redis_get_def blocklist_revoke_token
        JWT_ACCESS_TOKEN_EXPIRES_def)
  have e: "revoke_token ex_state 100 (jti ex_access) (token_type ex_access) = ex_revoked"
    by (simp add: ex_revoked_def j)
  have n: "jti ex_refresh \<noteq> jti ex_access"
    by (simp add: j)
  note t = logout_revokes_presented_only [OF h, where q = ex_refresh and now' = 200
      and rf = True and nf = False and k = "''j2''", unfolded e]
  have l: "logout ''k'' ex_state 100 (ex_bearer ex_access)
           = (message_response ''Successfully logged out'' 200, ex_revoked)"
    using t by simp
  have u: "users ex_revoked = users ex_state"
    using t l by simp
  have b: "dom (blocklist ex_state) = {}"
    by (simp add: ex_state_def)
  have d: "dom (blocklist ex_revoked) = {''j1''}"
    using t l b by (simp add: j)
  have k: "jwt_required ''k'' ex_revoked 200 (Some ex_refresh) True False = Inr ex_refresh"
    using t l n r by simp
  show ?thesis using h l u d n k a by simp
qed

section \<open>Deleting an account\<close>

text \<open>
  Claim C5 as stated fails: when the subject of the token is the id in the URL but no
  such user is stored, the answer is 404 and the token is not revoked.
\<close>

theorem delete_user_counterexample:
  "jwt_required ''k'' ex_no_users 100 (token (ex_bearer ex_access)) False True = Inr ex_access
   \<and> user_id ex_access = PyStr (str ''u1'')
   \<and> delete_user ''k'' ex_no_users 100 (ex_bearer ex_access) (str ''u1'')
       = (error_response ''User not found'' 404, ex_no_users)
   \<and> \<not> check_if_token_revoked ex_no_users 100 ex_access"
proof -
  have h: "jwt_required ''k'' ex_no_users 100 (token (ex_bearer ex_access)) False True
           = Inr ex_access"
    by (simp add: jwt_required_def ex_bearer_def ex_access_def create_access_token_def
        check_if_token_revoked_def redis_get_def ex_no_users_def JWT_ACCESS_TOKEN_EXPIRES_def)
  have i: "user_id ex_access = PyStr (str ''u1'')"
    by (simp add: ex_access_def create_access_token_def)
  have g: "storage_get (users ex_no_users) (PyStr (str ''u1'')) = None"
    by (simp add: storage_get_def ex_no_users_def)
  have d: "delete_user ''k'' ex_no_users 100 (ex_bearer ex_access) (str ''u1'')
           = (error_response ''User not found'' 404, ex_no_users)"
    using h i g by (simp add: delete_user_def)
  have n: "\<not> check_if_token_revoked ex_no_users 100 ex_access"
    by (simp add: check_if_token_revoked_def redis_get_def ex_no_users_def)
  show ?thesis using h i d n by simp
qed

text \<open>
  Claim C5, amended. With an accepted fresh token: if the subject of the token is not
  the id in the URL, the answer is 403 and the state is unchanged; if it is and no such
  user is stored, the answer is 404 and the state is unchanged; if it is and the user
  is stored, the answer is 200 and the writes the request makes are, in this order,
  the \<open>SET\<close> of the token's id in the revocation store, the deletion of the user's row
  and the commit. Afterwards the token is revoked and one row is gone, the user's own
  when ids are unique.
\<close>

theorem delete_user_own_account_only:
  assumes "jwt_required secret st now (token req) False True = Inr t"
  shows "(user_id t \<noteq> PyStr uid \<longrightarrow>
            delete_user secret st now req uid
              = (error_response ''Unauthorized to delete this user'' 403, st))
         \<and> (user_id t = PyStr uid \<and> storage_get (users st) (PyStr uid) = None \<longrightarrow>
            delete_user secret st now req uid = (error_response ''User not found'' 404, st))
         \<and> (user_id t = PyStr uid \<and> storage_get (users st) (PyStr uid) = Some user \<longrightarrow>
              fst (delete_user secret st now req uid)
                = (JObj [(''message'',
                          JVal (PyStr (str ''User '' @ uid @ str '' deleted successfully'')))],
                   200)
              \<and> writes (snd (delete_user secret st now req uid))
                  = writes st
                    @ [RedisSet (jti t) []
                         (if token_type t = ''refresh'' then JWT_REFRESH_TOKEN_EXPIRES
                          else JWT_ACCESS_TOKEN_EXPIRES),
                       DbDelete (PyStr uid), DbCommit]
              \<and> blocklist (snd (delete_user secret st now req uid))
                  = blocklist (revoke_token st now (jti t) (token_type t))
              \<and> users (snd (delete_user secret st now req uid))
                  = delete_first (\<lambda>u. getattr u ''id'' = PyStr uid) (users st)
              \<and> check_if_token_revoked (snd (delete_user secret st now req uid)) now t
              \<and> Suc (length (users (snd (delete_user secret st now req uid)))) = length (users st)
              \<and> (distinct (map (\<lambda>u. getattr u ''id'') (users st)) \<longrightarrow>
                   storage_get (users (snd (delete_user secret st now req uid))) (PyStr uid)
                     = None))"
proof -
  have f: "user_id t \<noteq> PyStr uid \<Longrightarrow>
            delete_user secret st now req uid
              = (error_response ''Unauthorized to delete this user'' 403, st)"
    using assms by (simp add: delete_user_def)
  have nf: "user_id t = PyStr uid \<and> storage_get (users st) (PyStr uid) = None \<Longrightarrow>
            delete_user secret st now req uid = (error_response ''User not found'' 404, st)"
    using assms by (simp add: delete_user_def)
  {
    assume m: "user_id t = PyStr uid" and g: "storage_get (users st) (PyStr uid) = Some user"
    define final where
      "final = storage_save (storage_delete (revoke_token st now (jti t) (token_type t))
                 (PyStr uid))"
    have d: "delete_user secret st now req uid
              = ((JObj [(''message'',
                         JVal (PyStr (str ''User '' @ uid @ str '' deleted successfully'')))],
                  200), final)"
      using assms m g by (simp add: delete_user_def final_def)
    have w: "writes final
             = writes st
               @ [RedisSet (jti t) []
                    (if token_type t = ''refresh'' then JWT_REFRESH_TOKEN_EXPIRES
                     else JWT_ACCESS_TOKEN_EXPIRES),
                  DbDelete (PyStr uid), DbCommit]"
      by (simp add: final_def storage_save_def storage_delete_def writes_revoke_token)
    have b: "blocklist final = blocklist (revoke_token st now (jti t) (token_type t))"
      by (simp add: final_def storage_save_def storage_delete_def)
    have u: "users final = delete_first (\<lambda>u. getattr u ''id'' = PyStr uid) (users st)"
      by (simp add: final_def storage_save_def storage_delete_def users_revoke_token)
    have c: "check_if_token_revoked final now t"
      using check_after_revoke [of st now t] by (simp add: check_if_token_revoked_def b)
    have fd: "find (\<lambda>u. getattr u ''id'' = PyStr uid) (users st) = Some user"
      using g by (simp add: storage_get_def)
    have len: "Suc (length (users final)) = length (users st)"
      using length_delete_first [of "\<lambda>u. getattr u ''id'' = PyStr uid" "users st" user] fd
      by (simp add: u)
    have gone: "distinct (map (\<lambda>u. getattr u ''id'') (users st)) \<Longrightarrow>
                storage_get (users final) (PyStr uid) = None"
      using find_delete_first_distinct [of "\<lambda>u. getattr u ''id''" "users st" "PyStr uid"]
      by (simp add: u storage_get_def)
    have "fst (delete_user secret st now req uid)
                = (JObj [(''message'',
                          JVal (PyStr (str ''User '' @ uid @ str '' deleted successfully'')))],
                   200)
              \<and> writes (snd (delete_user secret st now req uid))
                  = writes st
                    @ [RedisSet (jti t) []
                         (if token_type t = ''refresh'' then JWT_REFRESH_TOKEN_EXPIRES
                          else JWT_ACCESS_TOKEN_EXPIRES),
                       DbDelete (PyStr uid), DbCommit]
              \<and> blocklist (snd (delete_user secret st now req uid))
                  = blocklist (revoke_token st now (jti t) (token_type t))
              \<and> users (snd (delete_user secret st now req uid))
                  = delete_first (\<lambda>u. getattr u ''id'' = PyStr uid) (users st)
              \<and> check_if_token_revoked (snd (delete_user secret st now req uid)) now t
              \<and> Suc (length (users (snd (delete_user secret st now req uid)))) = length (users st)
              \<and> (distinct (map (\<lambda>u. getattr u ''id'') (users st)) \<longrightarrow>
                   storage_get (users (snd (delete_user secret st now req uid))) (PyStr uid)
                     = None)"
      using w b u c len gone by (simp add: d)
  }
  then show ?thesis using f nf by blast
qed

theorem delete_user_own_account_only_witness:
  "jwt_required ''k'' ex_state 100 (token (ex_bearer ex_access)) False True = Inr ex_access
   \<and> user_id ex_access \<noteq> PyStr (str ''u2'')
   \<and> delete_user ''k'' ex_state 100 (ex_bearer ex_access) (str ''u2'')
       = (error_response ''Unauthorized to delete this user'' 403, ex_state)
   \<and> user_id ex_access = PyStr (str ''u1'')
   \<and> storage_get (users ex_state) (PyStr (str ''u1'')) = Some ex_user
   \<and> distinct (map (\<lambda>u. getattr u ''id'') (users ex_state))
   \<and> writes (snd (delete_user ''k'' ex_state 100 (ex_bearer ex_access) (str ''u1'')))
       = [RedisSet ''j1'' [] 3600, DbDelete (PyStr (str ''u1'')), DbCommit]
   \<and> users (snd (delete_user ''k'' ex_state 100 (ex_bearer ex_access) (str ''u1''))) = []
   \<and> check_if_token_revoked
        (snd (delete_user ''k'' ex_state 100 (ex_bearer ex_access) (str ''u1''))) 100 ex_access
   \<and> storage_get (users (snd (delete_user ''k'' ex_state 100 (ex_bearer ex_access) (str ''u1''))))
        (PyStr (str ''u1'')) = None"
proof -
  have h: "jwt_required ''k'' ex_state 100 (token (ex_bearer ex_access)) False True
           = Inr ex_access"
    by (simp add: jwt_required_def ex_bearer_def ex_access_def create_access_token_def
        check_if_token_revoked_def redis_get_def ex_state_def JWT_ACCESS_TOKEN_EXPIRES_def)
  have i: "user_id ex_access = PyStr (str ''u1'')" "jti ex_access = ''j1''"
    "token_type ex_access = ''access''"
    by (simp_all add: ex_access_def create_access_token_def)
  have g: "storage_get (users ex_state) (PyStr (str ''u1'')) = Some ex_user"
    by (simp add: storage_get_def ex_state_def)
  have x: "distinct (map (\<lambda>u. getattr u ''id'') (users ex_state))"
    by (simp add: ex_state_def)
  have w: "writes ex_state = []" "users ex_state = [ex_user]"
    by (simp_all add: ex_state_def)
  note t1 = delete_user_own_account_only [OF h, of "str ''u2''" ex_user]
  note t2 = delete_user_own_account_only [OF h, of "str ''u1''" ex_user]
  have 1: "delete_user ''k'' ex_state 100 (ex_bearer ex_access) (str ''u2'')
           = (error_response ''Unauthorized to delete this user'' 403, ex_state)"
    using t1 i by simp
  have 2: "writes (snd (delete_user ''k'' ex_state 100 (ex_bearer ex_access) (str ''u1'')))
           = [RedisSet ''j1'' [] 3600, DbDelete (PyStr (str ''u1'')), DbCommit]"
    using t2 i g w by (simp add: JWT_ACCESS_TOKEN_EXPIRES_def)
  have 3: "users (snd (delete_user ''k'' ex_state 100 (ex_bearer ex_access) (str ''u1''))) = []"
    using t2 i g w by simp
  have 4: "check_if_token_revoked
        (snd (delete_user ''k'' ex_state 100 (ex_bearer ex_access) (str ''u1''))) 100 ex_access"
    using t2 i g by simp
  have 5: "storage_get
             (users (snd (delete_user ''k'' ex_state 100 (ex_bearer ex_access) (str ''u1''))))
             (PyStr (str ''u1'')) = None"
    using 3 by (simp add: storage_get_def)
  show ?thesis using h i g x 1 2 3 4 5 by simp
qed

section \<open>Resetting a password\<close>

subsection \<open>The reset flow on the examples\<close>

lemma ex_token_not_Nil [simp]: "ex_token \<noteq> []"
  by (simp add: ex_token_def)



lemma getattr_ex_pending_user [simp]:
  "getattr ex_pending_user ''reset_token'' = PyStr (str ex_token)"
  "getattr ex_pending_user ''email'' = PyStr (str ''a@x.com'')"
  "getattr ex_pending_user ''password_hash'' = PyHash ''salt0'' (Bytes (str ''secret1''))"
  by (simp_all add: ex_pending_user_def getattr_object_setattr)











end
